theory Spec2Isabelle
  imports Complex_Main "HOL-Library.Sublist" "HOL-Library.Multiset"
begin

section \<open>Numbers\<close>

text \<open>
  JavaScript numbers are modelled as exact real numbers: every literal of the source
  (\<open>0.40\<close>, \<open>-5\<close>, \<open>200\<close>) is the number it denotes, and \<open>+\<close>, \<open>*\<close>, \<open>/\<close> are
  exact.  \<open>Math.round\<close> rounds half-way cases towards plus infinity.
\<close>

definition Math_round :: "real \<Rightarrow> int" where
  "Math_round x = \<lfloor>x + 1 / 2\<rfloor>"

section \<open>feels.calculator.js\<close>

text \<open>
  A feature object has the six dimensions; the record is polymorphic in what a
  dimension holds.  The argument of \<open>calculateFeelsScore\<close> is an object some of whose
  properties may be absent: there a dimension is a \<open>real option\<close>, an absent property
  is \<open>None\<close> and takes the default of the destructuring pattern, and a missing object
  (\<open>null\<close>, \<open>undefined\<close>) is \<open>None\<close>.  The profiles of the genre table hold a
  number in every dimension.
\<close>

record 'a features =
  energy :: 'a
  tempo :: 'a
  danceability :: 'a
  loudness :: 'a
  valence :: 'a
  acousticness :: 'a

type_synonym audio_features = "real option features"

definition orDefault :: "real option \<Rightarrow> real \<Rightarrow> real" where
  "orDefault v d = (case v of None \<Rightarrow> d | Some x \<Rightarrow> x)"

definition calculateFeelsScore :: "audio_features option \<Rightarrow> int" where
  "calculateFeelsScore audioFeatures =
     (case audioFeatures of
        None \<Rightarrow> 50
      | Some af \<Rightarrow>
          (let energy' = orDefault (energy af) (5 / 10);
               tempo' = orDefault (tempo af) 120;
               danceability' = orDefault (danceability af) (5 / 10);
               loudness' = orDefault (loudness af) (- 10);
               valence' = orDefault (valence af) (5 / 10);
               acousticness' = orDefault (acousticness af) (5 / 10);
               normalizedEnergy = max 0 (min 1 energy');
               normalizedTempo = max 0 (min 1 (tempo' / 200));
               normalizedDanceability = max 0 (min 1 danceability');
               normalizedLoudness = max 0 (min 1 ((loudness' + 30) / 25));
               normalizedValence = max 0 (min 1 valence');
               normalizedAcousticness = max 0 (min 1 (1 - acousticness'));
               score = (normalizedEnergy * (40 / 100) +
                        normalizedTempo * (25 / 100) +
                        normalizedDanceability * (15 / 100) +
                        normalizedLoudness * (10 / 100) +
                        normalizedValence * (5 / 100) +
                        normalizedAcousticness * (5 / 100)) * 100
           in Math_round (max 0 (min 100 score))))"

definition getMoodLabel :: "int \<Rightarrow> string" where
  "getMoodLabel score =
     (if score < 20 then ''Very Chill''
      else if score < 40 then ''Relaxed''
      else if score < 60 then ''Moderate''
      else if score < 80 then ''Energetic''
      else ''Intense'')"

definition maxIntensity :: audio_features where
  "maxIntensity = \<lparr> energy = Some 1, tempo = Some 180, danceability = Some 1,
                    loudness = Some (- 5), valence = Some 1, acousticness = Some 0 \<rparr>"


subsection \<open>Collections of scored items\<close>

text \<open>
  An item is an object with an identifier and a property \<open>feelsScore\<close> that may be
  absent (\<open>None\<close>).  Scores are integers, as \<open>calculateFeelsScore\<close> produces them.
  The expression \<open>v.feelsScore || 50\<close> yields 50 for every falsy score: an absent
  one and the number 0.
\<close>

record video =
  vid :: string
  feelsScore :: "int option"

definition scoreOr50 :: "video \<Rightarrow> int" where
  "scoreOr50 v = (case feelsScore v of None \<Rightarrow> 50 | Some s \<Rightarrow> if s = 0 then 50 else s)"

text \<open>
  \<open>Array.prototype.sort\<close> is a stable sort driven by a comparator; a non-positive
  result keeps the first argument in front.  It is modelled by stable insertion.
\<close>

fun insert_cmp :: "('a \<Rightarrow> 'a \<Rightarrow> int) \<Rightarrow> 'a \<Rightarrow> 'a list \<Rightarrow> 'a list" where
  "insert_cmp cmp x [] = [x]"
| "insert_cmp cmp x (y # ys) = (if cmp x y \<le> 0 then x # y # ys else y # insert_cmp cmp x ys)"

definition Array_sort :: "('a \<Rightarrow> 'a \<Rightarrow> int) \<Rightarrow> 'a list \<Rightarrow> 'a list" where
  "Array_sort cmp xs = foldr (insert_cmp cmp) xs []"

definition feelsComparator :: "string \<Rightarrow> video \<Rightarrow> video \<Rightarrow> int" where
  "feelsComparator order a b =
     (let scoreA = scoreOr50 a; scoreB = scoreOr50 b
      in if order = ''asc'' then scoreA - scoreB else scoreB - scoreA)"

text \<open>
  Arrays are mutable objects, so the function is modelled over a store of arrays: a
  reference is an index into the store, an array literal or a spread \<open>[...videos]\<close>
  allocates a new cell, and \<open>sort\<close> overwrites the cell it is called on and returns
  the same reference.  The argument \<open>None\<close> is \<open>null\<close>.
\<close>

type_synonym ref = nat
type_synonym store = "video list list"

definition alloc :: "store \<Rightarrow> video list \<Rightarrow> ref \<times> store" where
  "alloc h arr = (length h, h @ [arr])"

definition sortInPlace :: "store \<Rightarrow> ref \<Rightarrow> (video \<Rightarrow> video \<Rightarrow> int) \<Rightarrow> ref \<times> store" where
  "sortInPlace h r cmp = (r, h[r := Array_sort cmp (h ! r)])"

definition sortByFeelsScore :: "store \<Rightarrow> ref option \<Rightarrow> string \<Rightarrow> ref \<times> store" where
  "sortByFeelsScore h videos order =
     (case videos of
        None \<Rightarrow> alloc h []
      | Some a \<Rightarrow>
          if length (h ! a) = 0 then alloc h []
          else (case alloc h (h ! a) of
                  (copy, h1) \<Rightarrow> sortInPlace h1 copy (feelsComparator order)))"







section \<open>Strings\<close>

text \<open>
  A string is a list of characters with codes 0 to 255, read as the code units
  U+0000 to U+00FF.  \<open>toLowerCase\<close> maps the capital letters of that range to the
  small ones; white space is the part of the class \<open>\s\<close> (and of \<open>trim\<close>) in
  that range: tab, line feed, vertical tab, form feed, carriage return, space and
  no-break space.
\<close>

definition upperCaseChars :: "char list" where
  "upperCaseChars = ''ABCDEFGHIJKLMNOPQRSTUVWXYZ'' @
     [CHR 0xC0, CHR 0xC1, CHR 0xC2, CHR 0xC3, CHR 0xC4, CHR 0xC5, CHR 0xC6, CHR 0xC7,
      CHR 0xC8, CHR 0xC9, CHR 0xCA, CHR 0xCB, CHR 0xCC, CHR 0xCD, CHR 0xCE, CHR 0xCF,
      CHR 0xD0, CHR 0xD1, CHR 0xD2, CHR 0xD3, CHR 0xD4, CHR 0xD5, CHR 0xD6,
      CHR 0xD8, CHR 0xD9, CHR 0xDA, CHR 0xDB, CHR 0xDC, CHR 0xDD, CHR 0xDE]"

definition lowerCaseChars :: "char list" where
  "lowerCaseChars = ''abcdefghijklmnopqrstuvwxyz'' @
     [CHR 0xE0, CHR 0xE1, CHR 0xE2, CHR 0xE3, CHR 0xE4, CHR 0xE5, CHR 0xE6, CHR 0xE7,
      CHR 0xE8, CHR 0xE9, CHR 0xEA, CHR 0xEB, CHR 0xEC, CHR 0xED, CHR 0xEE, CHR 0xEF,
      CHR 0xF0, CHR 0xF1, CHR 0xF2, CHR 0xF3, CHR 0xF4, CHR 0xF5, CHR 0xF6,
      CHR 0xF8, CHR 0xF9, CHR 0xFA, CHR 0xFB, CHR 0xFC, CHR 0xFD, CHR 0xFE]"

definition lowerChar :: "char \<Rightarrow> char" where
  "lowerChar c =
     (case map_of (zip upperCaseChars lowerCaseChars) c of None \<Rightarrow> c | Some l \<Rightarrow> l)"

definition toLowerCase :: "string \<Rightarrow> string" where
  "toLowerCase s = map lowerChar s"

definition isWhiteSpace :: "char \<Rightarrow> bool" where
  "isWhiteSpace c =
     (c \<in> set [CHR 0x09, CHR 0x0A, CHR 0x0B, CHR 0x0C, CHR 0x0D, CHR '' '', CHR 0xA0])"

definition trimEnd :: "string \<Rightarrow> string" where
  "trimEnd s = rev (dropWhile isWhiteSpace (rev s))"

definition trim :: "string \<Rightarrow> string" where
  "trim s = trimEnd (dropWhile isWhiteSpace s)"

text \<open>
  An argument that may be \<open>null\<close> or \<open>undefined\<close> is a \<open>string option\<close>; the test
  \<open>!str\<close> holds for a missing string and for the empty string.
\<close>

definition falsyStr :: "string option \<Rightarrow> bool" where
  "falsyStr v = (case v of None \<Rightarrow> True | Some s \<Rightarrow> s = [])"

section \<open>stringMatcher.js\<close>

text \<open>
  \<open>levenshteinDistance\<close> fills a matrix with one row for each prefix of \<open>str2\<close> and
  one column for each prefix of \<open>str1\<close>.  \<open>levCells\<close> computes the cells 1, 2, ... of
  a row from the previous row (whose cells \<open>diag\<close> and \<open>up\<close> lie up-left and up)
  and the cell to the left.
\<close>

fun levCells :: "char \<Rightarrow> string \<Rightarrow> nat list \<Rightarrow> nat \<Rightarrow> nat list" where
  "levCells c (d # ds) (diag # up # prev) left =
     (let cell = (if c = d then diag
                  else min (diag + 1) (min (left + 1) (up + 1)))
      in cell # levCells c ds (up # prev) cell)"
| "levCells c ds prev left = []"

definition levRow :: "string \<Rightarrow> nat list \<Rightarrow> nat \<times> char \<Rightarrow> nat list" where
  "levRow str1 prev ic = (case ic of (i, c) \<Rightarrow> i # levCells c str1 prev i)"

definition levenshteinDistance :: "string \<Rightarrow> string \<Rightarrow> nat" where
  "levenshteinDistance str1 str2 =
     last (foldl (levRow str1) [0 ..< Suc (length str1)]
             (zip [1 ..< Suc (length str2)] str2))"

definition similarityRatio :: "string option \<Rightarrow> string option \<Rightarrow> real" where
  "similarityRatio str1 str2 =
     (if falsyStr str1 \<or> falsyStr str2 then 0
      else
        (let s1 = trim (toLowerCase (the str1));
             s2 = trim (toLowerCase (the str2))
         in if s1 = s2 then 1
            else
              (let maxLength = max (length s1) (length s2)
               in if maxLength = 0 then 1
                  else 1 - real (levenshteinDistance s1 s2) / real maxLength)))"

section \<open>cache.service.js\<close>

text \<open>
  Cached values are JSON-like JavaScript values.  \<open>truthy\<close> is the test that
  \<open>||\<close> applies to its left operand.
\<close>

datatype jsval =
    JUndefined
  | JNull
  | JBool bool
  | JNum real
  | JStr string
  | JArray "jsval list"
  | JObject "(string \<times> jsval) list"

fun truthy :: "jsval \<Rightarrow> bool" where
  "truthy JUndefined = False"
| "truthy JNull = False"
| "truthy (JBool b) = b"
| "truthy (JNum n) = (n \<noteq> 0)"
| "truthy (JStr s) = (s \<noteq> [])"
| "truthy (JArray xs) = True"
| "truthy (JObject kvs) = True"

text \<open>
  The Redis client is an external collaborator: each of its calls either throws
  (\<open>None\<close>) or returns a reply.  \<open>r_get\<close> stands for \<open>client.get\<close> followed by
  \<open>JSON.parse\<close> (the reply is the parsed value, \<open>JNull\<close> for a missing key),
  \<open>r_exists\<close> for \<open>client.exists(key) === 1\<close>, \<open>r_mGet\<close> for \<open>client.mGet\<close> followed
  by the parsing of every reply, and \<open>r_setEx\<close> for \<open>client.setEx\<close>, which returns
  nothing of interest and whose effect stays inside Redis.
\<close>

record redis_client =
  r_get :: "string \<Rightarrow> jsval option"
  r_exists :: "string \<Rightarrow> bool option"
  r_mGet :: "string list \<Rightarrow> jsval list option"
  r_setEx :: "string \<Rightarrow> int \<Rightarrow> jsval \<Rightarrow> unit option"

text \<open>
  The state of the service: the two flags of the constructor and the two maps of the
  in-memory cache.  Times are milliseconds as \<open>Date.now()\<close> returns them; every
  operation that reads the clock takes the current time as an argument.
\<close>

record cache =
  client :: "redis_client option"
  isRedisAvailable :: bool
  memoryCache :: "string \<rightharpoonup> jsval"
  ttlMap :: "string \<rightharpoonup> int"

definition newCache :: cache where
  "newCache = \<lparr> client = None, isRedisAvailable = False,
                memoryCache = Map.empty, ttlMap = Map.empty \<rparr>"

definition getFromMemory :: "cache \<Rightarrow> int \<Rightarrow> string \<Rightarrow> jsval \<times> cache" where
  "getFromMemory c now key =
     (if (case ttlMap c key of None \<Rightarrow> False | Some ttlEntry \<Rightarrow> ttlEntry \<noteq> 0 \<and> now > ttlEntry)
      then (JNull, c\<lparr> memoryCache := (memoryCache c)(key := None),
                     ttlMap := (ttlMap c)(key := None) \<rparr>)
      else (case memoryCache c key of
              None \<Rightarrow> (JNull, c)
            | Some v \<Rightarrow> (if truthy v then v else JNull, c)))"

definition setInMemory :: "cache \<Rightarrow> int \<Rightarrow> string \<Rightarrow> jsval \<Rightarrow> int \<Rightarrow> cache" where
  "setInMemory c now key v ttlSeconds =
     c\<lparr> memoryCache := (memoryCache c)(key \<mapsto> v),
        ttlMap := (ttlMap c)(key \<mapsto> now + ttlSeconds * 1000) \<rparr>"

definition usesRedis :: "cache \<Rightarrow> bool" where
  "usesRedis c = (isRedisAvailable c \<and> client c \<noteq> None)"

text \<open>
  \<open>set\<close> takes the TTL \<open>ttlSeconds || parseInt(process.env.CACHE_TTL || '2592000')\<close>:
  \<open>envTtl\<close> is the number the environment gives, used when the argument is missing
  (\<open>None\<close>) or 0.
\<close>

definition set' :: "cache \<Rightarrow> int \<Rightarrow> int \<Rightarrow> string \<Rightarrow> jsval \<Rightarrow> int option \<Rightarrow> cache" where
  "set' c envTtl now key v ttlSeconds =
     (let ttl = (case ttlSeconds of None \<Rightarrow> envTtl | Some t \<Rightarrow> if t = 0 then envTtl else t)
      in if usesRedis c
         then (case r_setEx (the (client c)) key ttl v of
                 Some u \<Rightarrow> c
               | None \<Rightarrow> setInMemory c now key v ttl)
         else setInMemory c now key v ttl)"

definition get :: "cache \<Rightarrow> int \<Rightarrow> string \<Rightarrow> jsval \<times> cache" where
  "get c now key =
     (if usesRedis c
      then (case r_get (the (client c)) key of
              Some v \<Rightarrow> (v, c)
            | None \<Rightarrow> getFromMemory c now key)
      else getFromMemory c now key)"

definition exists :: "cache \<Rightarrow> string \<Rightarrow> bool" where
  "exists c key =
     (if usesRedis c
      then (case r_exists (the (client c)) key of
              Some b \<Rightarrow> b
            | None \<Rightarrow> memoryCache c key \<noteq> None)
      else memoryCache c key \<noteq> None)"

fun mgetFromMemory :: "cache \<Rightarrow> int \<Rightarrow> string list \<Rightarrow> jsval list \<times> cache" where
  "mgetFromMemory c now [] = ([], c)"
| "mgetFromMemory c now (key # keys) =
     (case getFromMemory c now key of
        (v, c1) \<Rightarrow> (case mgetFromMemory c1 now keys of (vs, c2) \<Rightarrow> (v # vs, c2)))"

definition mget :: "cache \<Rightarrow> int \<Rightarrow> string list \<Rightarrow> jsval list \<times> cache" where
  "mget c now keys =
     (if usesRedis c
      then (case r_mGet (the (client c)) keys of
              Some vs \<Rightarrow> (vs, c)
            | None \<Rightarrow> mgetFromMemory c now keys)
      else mgetFromMemory c now keys)"

text \<open>
  \<open>del\<close> also sends the deletion to Redis when it is in use; the reply is ignored and
  the in-memory maps are updated in every mode.
\<close>

definition del :: "cache \<Rightarrow> string \<Rightarrow> cache" where
  "del c key = c\<lparr> memoryCache := (memoryCache c)(key := None),
                  ttlMap := (ttlMap c)(key := None) \<rparr>"


section \<open>The genre-based audio analyzer\<close>

text \<open>
  The parameters \<open>artist\<close> and \<open>song\<close> are strings that may be missing
  (\<open>None\<close> is \<open>undefined\<close>); \<open>genres\<close> is an array of strings.
\<close>

fun join :: "string \<Rightarrow> string list \<Rightarrow> string" where
  "join sep [] = []"
| "join sep [x] = x"
| "join sep (x # y # ys) = x @ sep @ join sep (y # ys)"

text \<open>\<open>includes_str s p\<close> is \<open>s.includes(p)\<close>: the pattern occurs somewhere in \<open>s\<close>.\<close>

fun includes_str :: "string \<Rightarrow> string \<Rightarrow> bool" where
  "includes_str [] p = (p = [])"
| "includes_str (c # cs) p = (prefix p (c # cs) \<or> includes_str cs p)"

text \<open>
  The keyword tests have the form \<open>title.match(/\b(w1|w2|...)\b/)\<close>.  A word
  character is a letter, a digit or the underscore; \<open>\b\<close> holds between two
  positions exactly one of which holds a word character.  \<open>matchesWord ws s\<close> says that
  the search finds one of the alternatives \<open>ws\<close> somewhere in \<open>s\<close> with a word
  boundary on both sides.
\<close>

definition isWordChar :: "char \<Rightarrow> bool" where
  "isWordChar c =
     (c \<in> set ''abcdefghijklmnopqrstuvwxyzABCDEFGHIJKLMNOPQRSTUVWXYZ0123456789_'')"

definition wordBoundary :: "char option \<Rightarrow> char option \<Rightarrow> bool" where
  "wordBoundary before after =
     ((case before of None \<Rightarrow> False | Some c \<Rightarrow> isWordChar c)
        \<noteq> (case after of None \<Rightarrow> False | Some c \<Rightarrow> isWordChar c))"

definition firstChar :: "string \<Rightarrow> char option" where
  "firstChar s = (case s of [] \<Rightarrow> None | c # cs \<Rightarrow> Some c)"

definition matchesHere :: "char option \<Rightarrow> string \<Rightarrow> string \<Rightarrow> bool" where
  "matchesHere before s w =
     (w \<noteq> [] \<and> prefix w s
      \<and> wordBoundary before (firstChar w)
      \<and> wordBoundary (Some (last w)) (firstChar (drop (length w) s)))"

fun searchWord :: "string list \<Rightarrow> char option \<Rightarrow> string \<Rightarrow> bool" where
  "searchWord ws before [] = False"
| "searchWord ws before (c # cs) =
     (list_ex (matchesHere before (c # cs)) ws \<or> searchWord ws (Some c) cs)"

definition matchesWord :: "string list \<Rightarrow> string \<Rightarrow> bool" where
  "matchesWord ws s = searchWord ws None s"

type_synonym genre_profile = "real features"

record inferred_features = "real features" +
  confidence :: real
  source :: "string option"

definition genreMap :: "(string \<times> genre_profile) list" where
  "genreMap = [
    (''metal'', \<lparr> energy = 0.95, tempo = 160, danceability = 0.5, loudness = - 5, valence = 0.5, acousticness = 0.1 \<rparr>),
    (''heavy metal'', \<lparr> energy = 0.98, tempo = 170, danceability = 0.45, loudness = - 4, valence = 0.4, acousticness = 0.05 \<rparr>),
    (''death metal'', \<lparr> energy = 1.0, tempo = 180, danceability = 0.4, loudness = - 3, valence = 0.3, acousticness = 0.02 \<rparr>),
    (''punk'', \<lparr> energy = 0.9, tempo = 170, danceability = 0.6, loudness = - 5, valence = 0.5, acousticness = 0.15 \<rparr>),
    (''hardcore'', \<lparr> energy = 0.95, tempo = 180, danceability = 0.55, loudness = - 4, valence = 0.4, acousticness = 0.1 \<rparr>),
    (''rock'', \<lparr> energy = 0.75, tempo = 130, danceability = 0.55, loudness = - 6, valence = 0.6, acousticness = 0.2 \<rparr>),
    (''hard rock'', \<lparr> energy = 0.85, tempo = 140, danceability = 0.6, loudness = - 5, valence = 0.55, acousticness = 0.15 \<rparr>),
    (''alternative'', \<lparr> energy = 0.65, tempo = 120, danceability = 0.55, loudness = - 7, valence = 0.5, acousticness = 0.25 \<rparr>),
    (''electronic'', \<lparr> energy = 0.8, tempo = 128, danceability = 0.85, loudness = - 6, valence = 0.7, acousticness = 0.05 \<rparr>),
    (''techno'', \<lparr> energy = 0.85, tempo = 130, danceability = 0.9, loudness = - 5, valence = 0.6, acousticness = 0.02 \<rparr>),
    (''house'', \<lparr> energy = 0.8, tempo = 125, danceability = 0.9, loudness = - 6, valence = 0.75, acousticness = 0.05 \<rparr>),
    (''trance'', \<lparr> energy = 0.85, tempo = 138, danceability = 0.85, loudness = - 5, valence = 0.7, acousticness = 0.03 \<rparr>),
    (''dubstep'', \<lparr> energy = 0.9, tempo = 140, danceability = 0.8, loudness = - 4, valence = 0.6, acousticness = 0.02 \<rparr>),
    (''drum and bass'', \<lparr> energy = 0.92, tempo = 170, danceability = 0.85, loudness = - 5, valence = 0.65, acousticness = 0.03 \<rparr>),
    (''edm'', \<lparr> energy = 0.88, tempo = 128, danceability = 0.9, loudness = - 4, valence = 0.8, acousticness = 0.02 \<rparr>),
    (''dance'', \<lparr> energy = 0.8, tempo = 125, danceability = 0.92, loudness = - 6, valence = 0.8, acousticness = 0.05 \<rparr>),
    (''hip hop'', \<lparr> energy = 0.7, tempo = 95, danceability = 0.8, loudness = - 6, valence = 0.6, acousticness = 0.1 \<rparr>),
    (''rap'', \<lparr> energy = 0.7, tempo = 95, danceability = 0.75, loudness = - 6, valence = 0.6, acousticness = 0.1 \<rparr>),
    (''trap'', \<lparr> energy = 0.75, tempo = 140, danceability = 0.8, loudness = - 5, valence = 0.55, acousticness = 0.05 \<rparr>),
    (''pop'', \<lparr> energy = 0.65, tempo = 118, danceability = 0.7, loudness = - 6, valence = 0.7, acousticness = 0.15 \<rparr>),
    (''indie pop'', \<lparr> energy = 0.6, tempo = 115, danceability = 0.65, loudness = - 7, valence = 0.65, acousticness = 0.3 \<rparr>),
    (''synth pop'', \<lparr> energy = 0.7, tempo = 120, danceability = 0.75, loudness = - 6, valence = 0.75, acousticness = 0.1 \<rparr>),
    (''r&b'', \<lparr> energy = 0.55, tempo = 90, danceability = 0.65, loudness = - 8, valence = 0.6, acousticness = 0.25 \<rparr>),
    (''soul'', \<lparr> energy = 0.6, tempo = 95, danceability = 0.6, loudness = - 8, valence = 0.65, acousticness = 0.4 \<rparr>),
    (''funk'', \<lparr> energy = 0.75, tempo = 110, danceability = 0.85, loudness = - 7, valence = 0.75, acousticness = 0.2 \<rparr>),
    (''jazz'', \<lparr> energy = 0.45, tempo = 105, danceability = 0.5, loudness = - 12, valence = 0.55, acousticness = 0.7 \<rparr>),
    (''blues'', \<lparr> energy = 0.5, tempo = 90, danceability = 0.45, loudness = - 10, valence = 0.4, acousticness = 0.6 \<rparr>),
    (''classical'', \<lparr> energy = 0.4, tempo = 100, danceability = 0.2, loudness = - 15, valence = 0.5, acousticness = 0.95 \<rparr>),
    (''orchestral'', \<lparr> energy = 0.45, tempo = 105, danceability = 0.2, loudness = - 13, valence = 0.55, acousticness = 0.95 \<rparr>),
    (''country'', \<lparr> energy = 0.55, tempo = 110, danceability = 0.6, loudness = - 8, valence = 0.65, acousticness = 0.6 \<rparr>),
    (''folk'', \<lparr> energy = 0.45, tempo = 100, danceability = 0.45, loudness = - 10, valence = 0.55, acousticness = 0.8 \<rparr>),
    (''acoustic'', \<lparr> energy = 0.4, tempo = 95, danceability = 0.4, loudness = - 12, valence = 0.6, acousticness = 0.9 \<rparr>),
    (''ambient'', \<lparr> energy = 0.2, tempo = 70, danceability = 0.3, loudness = - 18, valence = 0.5, acousticness = 0.4 \<rparr>),
    (''chillout'', \<lparr> energy = 0.25, tempo = 80, danceability = 0.35, loudness = - 15, valence = 0.6, acousticness = 0.35 \<rparr>),
    (''downtempo'', \<lparr> energy = 0.3, tempo = 85, danceability = 0.4, loudness = - 14, valence = 0.55, acousticness = 0.3 \<rparr>),
    (''lounge'', \<lparr> energy = 0.35, tempo = 90, danceability = 0.45, loudness = - 13, valence = 0.6, acousticness = 0.4 \<rparr>),
    (''reggae'', \<lparr> energy = 0.55, tempo = 80, danceability = 0.75, loudness = - 8, valence = 0.7, acousticness = 0.3 \<rparr>),
    (''latin'', \<lparr> energy = 0.7, tempo = 115, danceability = 0.85, loudness = - 7, valence = 0.75, acousticness = 0.25 \<rparr>),
    (''salsa'', \<lparr> energy = 0.75, tempo = 120, danceability = 0.9, loudness = - 6, valence = 0.8, acousticness = 0.3 \<rparr>),
    (''indie'', \<lparr> energy = 0.55, tempo = 110, danceability = 0.55, loudness = - 8, valence = 0.55, acousticness = 0.35 \<rparr>),
    (''indie rock'', \<lparr> energy = 0.65, tempo = 120, danceability = 0.6, loudness = - 7, valence = 0.6, acousticness = 0.25 \<rparr>),
    (''experimental'', \<lparr> energy = 0.5, tempo = 110, danceability = 0.4, loudness = - 10, valence = 0.45, acousticness = 0.3 \<rparr>),
    (''noise'', \<lparr> energy = 0.85, tempo = 120, danceability = 0.3, loudness = - 4, valence = 0.3, acousticness = 0.1 \<rparr>)
  ]"

definition addFeatures :: "genre_profile \<Rightarrow> genre_profile \<Rightarrow> genre_profile" where
  "addFeatures avg f =
     \<lparr> energy = energy avg + energy f,
       tempo = tempo avg + tempo f,
       danceability = danceability avg + danceability f,
       loudness = loudness avg + loudness f,
       valence = valence avg + valence f,
       acousticness = acousticness avg + acousticness f \<rparr>"

definition matchedFeatures :: "string list \<Rightarrow> genre_profile list" where
  "matchedFeatures genres =
     (let genreStr = toLowerCase (join '' '' genres)
      in map snd (filter (\<lambda>entry. includes_str genreStr (fst entry)) genreMap))"

definition analyzeGenres :: "string list \<Rightarrow> genre_profile" where
  "analyzeGenres genres =
     (let matched = matchedFeatures genres
      in if length matched = 0 then the (map_of genreMap ''pop'')
         else
           (let avg = foldl addFeatures
                        \<lparr> energy = 0, tempo = 0, danceability = 0, loudness = 0,
                          valence = 0, acousticness = 0 \<rparr> matched;
                count = real (length matched)
            in \<lparr> energy = energy avg / count,
                 tempo = of_int (Math_round (tempo avg / count)),
                 danceability = danceability avg / count,
                 loudness = loudness avg / count,
                 valence = valence avg / count,
                 acousticness = acousticness avg / count \<rparr>))"

definition energeticKeywords :: "string list" where
  "energeticKeywords = [''rage'', ''aggressive'', ''intense'', ''power'', ''extreme'', ''brutal'']"

definition chillKeywords :: "string list" where
  "chillKeywords = [''chill'', ''calm'', ''relax'', ''peaceful'', ''ambient'', ''slow'', ''soft'']"

definition happyKeywords :: "string list" where
  "happyKeywords = [''happy'', ''joy'', ''sunshine'', ''bright'', ''upbeat'', ''party'']"

definition sadKeywords :: "string list" where
  "sadKeywords = [''sad'', ''blue'', ''tears'', ''lonely'', ''heartbreak'', ''melancholy'']"

definition acousticKeywords :: "string list" where
  "acousticKeywords = [''acoustic'', ''unplugged'', ''stripped'', ''piano'', ''guitar'']"

definition adjustEnergetic :: "bool \<Rightarrow> inferred_features \<Rightarrow> inferred_features" where
  "adjustEnergetic hit f =
     (if hit then f\<lparr> energy := min 1.0 (energy f + 0.2),
                     loudness := min (- 5) (loudness f + 2) \<rparr> else f)"

definition adjustChill :: "bool \<Rightarrow> inferred_features \<Rightarrow> inferred_features" where
  "adjustChill hit f =
     (if hit then f\<lparr> energy := max 0.1 (energy f - 0.2),
                     tempo := max 60 (tempo f - 20) \<rparr> else f)"

definition adjustHappy :: "bool \<Rightarrow> inferred_features \<Rightarrow> inferred_features" where
  "adjustHappy hit f = (if hit then f\<lparr> valence := min 1.0 (valence f + 0.2) \<rparr> else f)"

definition adjustSad :: "bool \<Rightarrow> inferred_features \<Rightarrow> inferred_features" where
  "adjustSad hit f =
     (if hit then (f\<lparr> valence := max 0.1 (valence f - 0.3) \<rparr>)
                    \<lparr> energy := max 0.2 (energy f - 0.1) \<rparr> else f)"

definition adjustAcoustic :: "bool \<Rightarrow> inferred_features \<Rightarrow> inferred_features" where
  "adjustAcoustic hit f =
     (if hit then f\<lparr> acousticness := min 1.0 (acousticness f + 0.3) \<rparr> else f)"

text \<open>
  \<open>adjustForTitleKeywords\<close> runs its five tests in the order of the source, each
  on the features as the earlier ones left them.
\<close>

definition adjustForTitleKeywords :: "string option \<Rightarrow> inferred_features \<Rightarrow> inferred_features" where
  "adjustForTitleKeywords song features =
     (if falsyStr song then features
      else
        (let title = toLowerCase (the song);
             f1 = adjustEnergetic (matchesWord energeticKeywords title) features;
             f2 = adjustChill (matchesWord chillKeywords title) f1;
             f3 = adjustHappy (matchesWord happyKeywords title) f2;
             f4 = adjustSad (matchesWord sadKeywords title) f3
         in adjustAcoustic (matchesWord acousticKeywords title) f4))"

definition templateString :: "string option \<Rightarrow> string" where
  "templateString v = (case v of None \<Rightarrow> ''undefined'' | Some s \<Rightarrow> s)"

definition inferFromNames :: "string option \<Rightarrow> string option \<Rightarrow> genre_profile" where
  "inferFromNames artist song =
     (let combined = toLowerCase (templateString artist @ '' '' @ templateString song)
      in if matchesWord [''symphony'', ''concerto'', ''sonata'', ''mozart'', ''beethoven'', ''bach'']
              combined
         then \<lparr> energy = 0.4, tempo = 100, danceability = 0.2, loudness = - 12,
                valence = 0.5, acousticness = 0.95 \<rparr>
         else if matchesWord [''dj'', ''remix'', ''mix'', ''dubstep'', ''techno'', ''edm'',
                              ''electronic''] combined
         then \<lparr> energy = 0.8, tempo = 128, danceability = 0.85, loudness = - 6,
                valence = 0.7, acousticness = 0.05 \<rparr>
         else \<lparr> energy = 0.5, tempo = 120, danceability = 0.5, loudness = - 10,
                valence = 0.5, acousticness = 0.5 \<rparr>)"

definition calculateConfidence :: "string list \<Rightarrow> real" where
  "calculateConfidence genres =
     (if length genres = 0 then 0.3
      else if length genres = 1 then 0.6
      else if length genres \<ge> 3 then 0.8
      else 0.7)"

text \<open>
  \<open>withProfile p c s\<close> is the object with the six dimensions of \<open>p\<close> and the given
  \<open>confidence\<close> and \<open>source\<close>: the result of spreading \<open>p\<close> over an object that
  has those two properties.
\<close>

definition withProfile :: "genre_profile \<Rightarrow> real \<Rightarrow> string option \<Rightarrow> inferred_features" where
  "withProfile p c s =
     \<lparr> energy = energy p, tempo = tempo p, danceability = danceability p,
       loudness = loudness p, valence = valence p, acousticness = acousticness p,
       confidence = c, source = s \<rparr>"

definition inferAudioFeatures ::
    "string option \<Rightarrow> string option \<Rightarrow> string list \<Rightarrow> inferred_features" where
  "inferAudioFeatures artist song genres =
     (if length genres = 0
      then withProfile (inferFromNames artist song) 0.3 None
      else
        (let genreFeatures = analyzeGenres genres;
             features = withProfile genreFeatures 0.5 (Some ''genre-heuristic'');
             features' = adjustForTitleKeywords song features
         in features'\<lparr> confidence := calculateConfidence genres \<rparr>))"

text \<open>
  The step function as the specification words it, over the number of matched genre
  profiles; it is only used to compare the specification with \<open>calculateConfidence\<close>.
\<close>

definition specConfidenceOfMatches :: "nat \<Rightarrow> real" where
  "specConfidenceOfMatches n =
     (if n = 0 then 0.3 else if n = 1 then 0.6 else if n = 2 then 0.7 else 0.8)"


section \<open>titleParser.js\<close>

definition COMMON_SUFFIXES :: "string list" where
  "COMMON_SUFFIXES = [
     ''(official video)'',
     ''(official music video)'',
     ''(official audio)'',
     ''(lyric video)'',
     ''(lyrics)'',
     ''[official video]'',
     ''[official music video]'',
     ''[official audio]'',
     ''(music video)'',
     ''(audio)'',
     ''(hd)'',
     ''(4k)'',
     ''(explicit)'',
     ''(clean)'',
     ''(radio edit)'',
     ''(extended)'',
     ''(remix)'',
     ''(remastered)'']"

text \<open>
  For a suffix \<open>d\<close> of the table, \<open>cleaned.replace(regex, '')\<close> uses the regular
  expression that matches \<open>d\<close> literally, then white space up to the end of the text.
  The expression can only match where \<open>d\<close> ends at the last character that is not
  white space, so the replacement removes \<open>d\<close> and the white space after it, or
  leaves the text as it is.  The text is in lower case already, so the flag \<open>i\<close> has
  no further effect.
\<close>

definition endsWith :: "string \<Rightarrow> string \<Rightarrow> bool" where
  "endsWith s d = prefix (rev d) (rev s)"

definition stripSuffix :: "string \<Rightarrow> string \<Rightarrow> string" where
  "stripSuffix cleaned d =
     (let t = trimEnd cleaned
      in if endsWith t d then take (length t - length d) t else cleaned)"

text \<open>\<open>collapseSpaces\<close> is \<open>replace(/\s+/g, ' ')\<close>; the flag says whether the
  previous character was white space.\<close>

fun collapseFrom :: "bool \<Rightarrow> string \<Rightarrow> string" where
  "collapseFrom inRun [] = []"
| "collapseFrom inRun (c # cs) =
     (if isWhiteSpace c
      then (if inRun then collapseFrom True cs else CHR '' '' # collapseFrom True cs)
      else c # collapseFrom False cs)"

definition collapseSpaces :: "string \<Rightarrow> string" where
  "collapseSpaces s = collapseFrom False s"

definition cleanTitle :: "string \<Rightarrow> string" where
  "cleanTitle title =
     (let cleaned = foldl stripSuffix (toLowerCase title) COMMON_SUFFIXES
      in collapseSpaces (trim cleaned))"

definition calculateConfidence_title :: "string \<Rightarrow> string \<Rightarrow> string option \<Rightarrow> real" where
  "calculateConfidence_title artist song channelTitle =
     (let c0 = 0.5;
          c1 = (if artist \<noteq> [] \<and> song \<noteq> [] \<and> toLowerCase artist \<noteq> toLowerCase song
                then c0 + 0.2 else c0);
          c2 = (if artist \<noteq> [] \<and> \<not> falsyStr channelTitle
                then (let artistLower = toLowerCase artist;
                          channelLower = toLowerCase (the channelTitle)
                      in if includes_str channelLower artistLower
                            \<or> includes_str artistLower channelLower
                         then c1 + 0.2 else c1)
                else c1);
          c3 = (if artist \<noteq> [] \<and> song \<noteq> [] \<and> length artist > 2 \<and> length song > 2
                then c2 + 0.1 else c2)
      in min c3 1.0)"

text \<open>
  The patterns.  A dot matches every character but a line terminator; a negated class
  matches line terminators too.  \<open>restGroup\<close> is the match of \<open>\s*(.+)$\<close> against
  the rest of the text: the group is what follows the leading white space, and when
  the rest is white space only, backtracking leaves its last character to the group.
  \<open>restGroup1\<close> is the same for \<open>\s+(.+)$\<close>.
\<close>

definition isLineTerminator :: "char \<Rightarrow> bool" where
  "isLineTerminator c = (c \<in> set [CHR 0x0A, CHR 0x0D])"

definition restGroup :: "string \<Rightarrow> string option" where
  "restGroup r =
     (let t = dropWhile isWhiteSpace r
      in if t \<noteq> [] then (if list_ex isLineTerminator t then None else Some t)
         else if r = [] \<or> isLineTerminator (last r) then None
         else Some [last r])"

definition restGroup1 :: "string \<Rightarrow> string option" where
  "restGroup1 r =
     (let t = dropWhile isWhiteSpace r
      in if t \<noteq> [] then (if t = r \<or> list_ex isLineTerminator t then None else Some t)
         else if length r < 2 \<or> isLineTerminator (last r) then None
         else Some [last r])"

text \<open>
  \<open>separatorPattern sep\<close> covers \<open>/^([^-]+)\s*-\s*(.+)$/\<close>,
  \<open>/^([^:]+):\s*(.+)$/\<close> and \<open>/^([^|]+)\|\s*(.+)$/\<close>: the first group is the text
  before the first separator and must not be empty.
\<close>

definition separatorPattern :: "char \<Rightarrow> string \<Rightarrow> (string \<times> string) option" where
  "separatorPattern sep s =
     (let g1 = takeWhile (\<lambda>c. c \<noteq> sep) s;
          r = dropWhile (\<lambda>c. c \<noteq> sep) s
      in if g1 = [] \<or> r = [] then None
         else (case restGroup (tl r) of None \<Rightarrow> None | Some g2 \<Rightarrow> Some (g1, g2)))"

text \<open>
  \<open>/^(.+)\s+by\s+(.+)$/i\<close>: \<open>byTail r\<close> is the match of \<open>\s+by\s+(.+)$\<close> at the
  start of \<open>r\<close>; the first group is greedy, so the split is tried from the longest
  first group without a line terminator down to the shortest.
\<close>

definition byTail :: "string \<Rightarrow> string option" where
  "byTail r =
     (let w = takeWhile isWhiteSpace r;
          a = dropWhile isWhiteSpace r
      in if w = [] then None
         else (case a of
                 b # y # rest \<Rightarrow>
                   if (b = CHR ''b'' \<or> b = CHR ''B'') \<and> (y = CHR ''y'' \<or> y = CHR ''Y'')
                   then restGroup1 rest else None
               | _ \<Rightarrow> None))"

fun bySplit :: "string \<Rightarrow> nat \<Rightarrow> (string \<times> string) option" where
  "bySplit s 0 = None"
| "bySplit s (Suc n) =
     (case byTail (drop (Suc n) s) of
        Some g2 \<Rightarrow> Some (take (Suc n) s, g2)
      | None \<Rightarrow> bySplit s n)"

definition byPattern :: "string \<Rightarrow> (string \<times> string) option" where
  "byPattern s = bySplit s (length (takeWhile (\<lambda>c. \<not> isLineTerminator c) s))"

text \<open>\<open>removeAtEnd w s\<close> is \<open>s.replace(/w$/i, '')\<close> for a word \<open>w\<close> of small letters.\<close>

definition removeAtEnd :: "string \<Rightarrow> string \<Rightarrow> string" where
  "removeAtEnd w s =
     (if endsWith (toLowerCase s) w then take (length s - length w) s else s)"

record parsed_title =
  artist_of :: "string option"
  song_of :: "string option"
  confidence_of :: real

definition parseVideoTitle :: "string option \<Rightarrow> string option \<Rightarrow> parsed_title" where
  "parseVideoTitle title channelTitle =
     (if falsyStr title then \<lparr> artist_of = None, song_of = None, confidence_of = 0 \<rparr>
      else
        (let cleaned = cleanTitle (the title)
         in case separatorPattern CHR ''-'' cleaned of
              Some (g1, g2) \<Rightarrow>
                \<lparr> artist_of = Some (trim g1), song_of = Some (trim g2),
                  confidence_of = calculateConfidence_title (trim g1) (trim g2) channelTitle \<rparr>
            | None \<Rightarrow>
          (case byPattern cleaned of
              Some (g1, g2) \<Rightarrow>
                \<lparr> artist_of = Some (trim g2), song_of = Some (trim g1),
                  confidence_of = calculateConfidence_title (trim g2) (trim g1) channelTitle \<rparr>
            | None \<Rightarrow>
          (case separatorPattern CHR '':'' cleaned of
              Some (g1, g2) \<Rightarrow>
                \<lparr> artist_of = Some (trim g1), song_of = Some (trim g2),
                  confidence_of = calculateConfidence_title (trim g1) (trim g2) channelTitle \<rparr>
            | None \<Rightarrow>
          (case separatorPattern CHR ''|'' cleaned of
              Some (g1, g2) \<Rightarrow>
                \<lparr> artist_of = Some (trim g1), song_of = Some (trim g2),
                  confidence_of = calculateConfidence_title (trim g1) (trim g2) channelTitle \<rparr>
            | None \<Rightarrow>
          (if \<not> falsyStr channelTitle
           then \<lparr> artist_of = Some (trim (removeAtEnd ''music''
                                     (removeAtEnd ''official''
                                        (removeAtEnd ''vevo'' (the channelTitle))))),
                  song_of = Some cleaned, confidence_of = 0.4 \<rparr>
           else \<lparr> artist_of = None, song_of = Some cleaned, confidence_of = 0.3 \<rparr>))))))"


text \<open>
  \<open>readsAsMiss c key\<close>: the map of values has no value for the key, or a falsy one.
\<close>

definition readsAsMiss :: "cache \<Rightarrow> string \<Rightarrow> bool" where
  "readsAsMiss c key = (case memoryCache c key of None \<Rightarrow> True | Some v \<Rightarrow> \<not> truthy v)"

text \<open>
  The bounds that the features inferred from genres keep through every step.
\<close>

definition inBounds :: "(real, 'z) features_scheme \<Rightarrow> bool" where
  "inBounds f = (0 \<le> energy f \<and> energy f \<le> 1
     \<and> 60 \<le> tempo f \<and> tempo f \<le> 200
     \<and> 0 \<le> danceability f \<and> danceability f \<le> 1
     \<and> - 30 \<le> loudness f \<and> loudness f \<le> - 4
     \<and> 0 \<le> valence f \<and> valence f \<le> 1
     \<and> 0 \<le> acousticness f \<and> acousticness f \<le> 1)"

section \<open>Properties of the score\<close>

lemma maxIntensity_score: "calculateFeelsScore (Some maxIntensity) = 98"
  by (simp add: calculateFeelsScore_def maxIntensity_def orDefault_def Math_round_def)

text \<open>
  C6: for the vector energy=1, tempo=180, danceability=1, loudness=-5, valence=1,
  acousticness=0 the score is strictly greater than 80 (it is 98), and the mood label
  of that score is the band Intense.
\<close>

theorem C6_max_intensity_is_intense:
  "calculateFeelsScore (Some maxIntensity) > 80 \<and>
   getMoodLabel (calculateFeelsScore (Some maxIntensity)) = ''Intense''"
  by (simp add: maxIntensity_score getMoodLabel_def)

text \<open>
  C7: a missing (null) feature vector is mapped to the score 50; the function has no
  failing branch on that input.
\<close>

theorem C7_null_features_score_50: "calculateFeelsScore None = 50"
  by (simp add: calculateFeelsScore_def)

section \<open>Sorting and aggregating scored items\<close>

lemma length_insert_cmp: "length (insert_cmp cmp x ys) = Suc (length ys)"
  by (induction ys) auto

lemma length_Array_sort: "length (Array_sort cmp xs) = length xs"
  by (induction xs) (auto simp: Array_sort_def length_insert_cmp)

text \<open>
  C8: for every array of items held in the store and either sort order, the array
  returned by \<open>sortByFeelsScore\<close> has the length of the input array, and after the
  call the input array (like every other array that existed before) holds the same
  elements in the same order.  The empty array is included.
\<close>

theorem C8_sort_length_and_frame:
  assumes "a < length h"
  shows "length (snd (sortByFeelsScore h (Some a) order) ! fst (sortByFeelsScore h (Some a) order))
           = length (h ! a)
         \<and> snd (sortByFeelsScore h (Some a) order) ! a = h ! a
         \<and> take (length h) (snd (sortByFeelsScore h (Some a) order)) = h"
  using assms
  by (auto simp: sortByFeelsScore_def alloc_def sortInPlace_def length_Array_sort nth_append)

theorem C8_sort_length_and_frame_witness:
  "(1::nat) < length [[], [\<lparr>vid = ''a'', feelsScore = Some 80\<rparr>, \<lparr>vid = ''b'', feelsScore = None\<rparr>]]
   \<and> length (snd (sortByFeelsScore [[], [\<lparr>vid = ''a'', feelsScore = Some 80\<rparr>, \<lparr>vid = ''b'', feelsScore = None\<rparr>]] (Some 1) ''asc'')
              ! fst (sortByFeelsScore [[], [\<lparr>vid = ''a'', feelsScore = Some 80\<rparr>, \<lparr>vid = ''b'', feelsScore = None\<rparr>]] (Some 1) ''asc'')) = 2
   \<and> snd (sortByFeelsScore [[], [\<lparr>vid = ''a'', feelsScore = Some 80\<rparr>, \<lparr>vid = ''b'', feelsScore = None\<rparr>]] (Some 1) ''asc'') ! 1
       = [\<lparr>vid = ''a'', feelsScore = Some 80\<rparr>, \<lparr>vid = ''b'', feelsScore = None\<rparr>]"
  using C8_sort_length_and_frame
    [of 1 "[[], [\<lparr>vid = ''a'', feelsScore = Some 80\<rparr>, \<lparr>vid = ''b'', feelsScore = None\<rparr>]]" "''asc''"]
  by simp
























section \<open>String similarity\<close>

lemma levenshtein_kitten_sitting: "levenshteinDistance ''kitten'' ''sitting'' = 3"
  by code_simp

lemma isWhiteSpace_space: "isWhiteSpace CHR '' ''"
  by (simp add: isWhiteSpace_def)

text \<open>
  C5 as stated fails at the empty string: the guard on falsy arguments returns 0
  before the two strings are compared.
\<close>

theorem C5_empty_string_counterexample:
  "similarityRatio (Some []) (Some []) = 0 \<and> similarityRatio (Some []) (Some []) \<noteq> 1"
  by (simp add: similarityRatio_def falsyStr_def)

text \<open>
  C5, amended: for every non-empty string \<open>s\<close> (a string of white space only
  included) \<open>similarityRatio(s, s)\<close> is 1.
\<close>

theorem C5_similarity_reflexive_nonempty:
  assumes "s \<noteq> []"
  shows "similarityRatio (Some s) (Some s) = 1"
  using assms by (simp add: similarityRatio_def falsyStr_def)

theorem C5_similarity_reflexive_nonempty_witness:
  "''  '' \<noteq> [] \<and> similarityRatio (Some ''  '') (Some ''  '') = 1"
  using C5_similarity_reflexive_nonempty [of "''  ''"] by simp

section \<open>The in-memory cache\<close>

lemma getFromMemory_expired:
  assumes "ttlMap c key = Some e" and "e \<noteq> 0" and "now > e"
  shows "fst (getFromMemory c now key) = JNull"
  using assms by (simp add: getFromMemory_def)

lemma get_expired:
  assumes "\<not> usesRedis c" and "ttlMap c key = Some e" and "e \<noteq> 0" and "now > e"
  shows "fst (get c now key) = JNull"
  using assms by (simp add: get_def getFromMemory_expired)

text \<open>
  C3 at a concrete cache in in-memory mode: \<open>set('k', 'v', 1)\<close> at time 0 gives the
  key the expiry time 1000, and the key is read at time 2000 without any sweep in
  between.  \<open>get\<close> and \<open>mget\<close> answer \<open>null\<close>, but \<open>exists\<close> answers
  \<open>true\<close>: it only asks whether the map of values has the key and never looks at
  the expiry time.
\<close>

theorem C3_exists_reports_expired_entry:
  "ttlMap (set' newCache 2592000 0 ''k'' (JStr ''v'') (Some 1)) ''k'' = Some 1000
   \<and> fst (get (set' newCache 2592000 0 ''k'' (JStr ''v'') (Some 1)) 2000 ''k'') = JNull
   \<and> fst (mget (set' newCache 2592000 0 ''k'' (JStr ''v'') (Some 1)) 2000 [''k'']) = [JNull]
   \<and> exists (set' newCache 2592000 0 ''k'' (JStr ''v'') (Some 1)) ''k'' = True"
  by (simp add: set'_def setInMemory_def newCache_def get_def mget_def exists_def usesRedis_def
      getFromMemory_def)

lemma getFromMemory_readsAsMiss:
  "readsAsMiss c key \<Longrightarrow> fst (getFromMemory c now key) = JNull"
  by (simp add: readsAsMiss_def getFromMemory_def split: option.splits)

lemma getFromMemory_keeps_readsAsMiss:
  "readsAsMiss c key \<Longrightarrow> readsAsMiss (snd (getFromMemory c now k)) key"
  by (auto simp: readsAsMiss_def getFromMemory_def split: option.splits)

lemma mgetFromMemory_readsAsMiss:
  "readsAsMiss c key \<Longrightarrow> i < length keys \<Longrightarrow> keys ! i = key
     \<Longrightarrow> fst (mgetFromMemory c now keys) ! i = JNull"
proof (induction keys arbitrary: c i)
  case Nil
  then show ?case by simp
next
  case (Cons k ks)
  obtain v c1 where g: "getFromMemory c now k = (v, c1)" by (cases "getFromMemory c now k")
  obtain vs c2 where m: "mgetFromMemory c1 now ks = (vs, c2)" by (cases "mgetFromMemory c1 now ks")
  have c1: "readsAsMiss c1 key"
    using getFromMemory_keeps_readsAsMiss [OF Cons.prems(1), of now k] g by simp
  show ?case
  proof (cases i)
    case 0
    then have "k = key" using Cons.prems(3) by simp
    then have "v = JNull" using getFromMemory_readsAsMiss [OF Cons.prems(1), of now] g by simp
    then show ?thesis using 0 g m by simp
  next
    case (Suc n)
    then have "n < length ks" and "ks ! n = key" using Cons.prems(2,3) by simp_all
    then have "fst (mgetFromMemory c1 now ks) ! n = JNull" using Cons.IH [OF c1] by simp
    then show ?thesis using Suc g m by simp
  qed
qed

text \<open>
  C10 as stated fails in its conclusion: a key that holds a falsy value is told from a
  missing key at the public interface, because \<open>exists\<close> answers \<open>true\<close> for the
  first and \<open>false\<close> for the second, although \<open>get\<close> answers \<open>null\<close> for both.
\<close>

theorem C10_exists_tells_stored_from_miss:
  "\<not> usesRedis (set' newCache 2592000 0 ''k'' (JNum 0) (Some 10))
   \<and> ttlMap (set' newCache 2592000 0 ''k'' (JNum 0) (Some 10)) ''k'' = Some 10000
   \<and> fst (get (set' newCache 2592000 0 ''k'' (JNum 0) (Some 10)) 5000 ''k'') = JNull
   \<and> fst (get (del (set' newCache 2592000 0 ''k'' (JNum 0) (Some 10)) ''k'') 5000 ''k'') = JNull
   \<and> exists (set' newCache 2592000 0 ''k'' (JNum 0) (Some 10)) ''k'' = True
   \<and> exists (del (set' newCache 2592000 0 ''k'' (JNum 0) (Some 10)) ''k'') ''k'' = False"
  by (simp add: set'_def setInMemory_def newCache_def get_def exists_def usesRedis_def
      getFromMemory_def del_def)

text \<open>
  C10, amended: in in-memory mode, for every key whose stored value is falsy (0, the
  empty string, false, null), \<open>get\<close> answers \<open>null\<close> and \<open>mget\<close> yields \<open>null\<close>
  at every position of that key, which is what both answer once the key has been
  deleted: through \<open>get\<close> and \<open>mget\<close> the stored value cannot be told from a
  miss.  \<open>exists\<close> still answers \<open>true\<close> for the stored key.
\<close>

theorem C10_falsy_value_reads_as_null:
  assumes "\<not> usesRedis c" and "memoryCache c key = Some v" and "\<not> truthy v"
    and "i < length keys" and "keys ! i = key"
  shows "fst (get c now key) = JNull
         \<and> fst (mget c now keys) ! i = JNull
         \<and> fst (get (del c key) now key) = JNull
         \<and> fst (mget (del c key) now keys) ! i = JNull
         \<and> exists c key"
proof -
  have memoryMode: "\<not> usesRedis (del c key)"
    using assms(1) by (simp add: usesRedis_def del_def)
  have stored: "readsAsMiss c key" using assms(2,3) by (simp add: readsAsMiss_def)
  have deleted: "readsAsMiss (del c key) key" by (simp add: readsAsMiss_def del_def)
  show ?thesis
    using assms(1,2,4,5) memoryMode
    by (simp add: get_def mget_def exists_def getFromMemory_readsAsMiss [OF stored]
        getFromMemory_readsAsMiss [OF deleted] mgetFromMemory_readsAsMiss [OF stored]
        mgetFromMemory_readsAsMiss [OF deleted])
qed

theorem C10_falsy_value_reads_as_null_witness:
  "\<not> usesRedis (set' newCache 2592000 0 ''k'' (JNum 0) (Some 10))
   \<and> memoryCache (set' newCache 2592000 0 ''k'' (JNum 0) (Some 10)) ''k'' = Some (JNum 0)
   \<and> \<not> truthy (JNum 0)
   \<and> (1::nat) < length [''x'', ''k''] \<and> [''x'', ''k''] ! 1 = ''k''
   \<and> fst (get (set' newCache 2592000 0 ''k'' (JNum 0) (Some 10)) 5000 ''k'') = JNull
   \<and> fst (mget (set' newCache 2592000 0 ''k'' (JNum 0) (Some 10)) 5000 [''x'', ''k'']) ! 1 = JNull
   \<and> fst (get (del (set' newCache 2592000 0 ''k'' (JNum 0) (Some 10)) ''k'') 5000 ''k'') = JNull
   \<and> fst (mget (del (set' newCache 2592000 0 ''k'' (JNum 0) (Some 10)) ''k'') 5000 [''x'', ''k'']) ! 1
       = JNull
   \<and> exists (set' newCache 2592000 0 ''k'' (JNum 0) (Some 10)) ''k''"
  using C10_falsy_value_reads_as_null
    [of "set' newCache 2592000 0 ''k'' (JNum 0) (Some 10)" "''k''" "JNum 0" 1 "[''x'', ''k'']" 5000]
  by (simp add: set'_def setInMemory_def newCache_def usesRedis_def)

section \<open>Genre inference\<close>


lemma includes_str_iff: "includes_str s p \<longleftrightarrow> (\<exists>a b. s = a @ p @ b)"
proof (induction s)
  case Nil
  then show ?case by auto
next
  case (Cons c cs)
  show ?case
  proof
    assume "includes_str (c # cs) p"
    then consider "prefix p (c # cs)" | "includes_str cs p" by auto
    then show "\<exists>a b. c # cs = a @ p @ b"
    proof cases
      case 1
      then obtain b where "c # cs = p @ b" by (auto simp: prefix_def)
      then have "c # cs = [] @ p @ b" by simp
      then show ?thesis by blast
    next
      case 2
      then obtain a b where "cs = a @ p @ b" using Cons.IH by auto
      then have "c # cs = (c # a) @ p @ b" by simp
      then show ?thesis by blast
    qed
  next
    assume "\<exists>a b. c # cs = a @ p @ b"
    then obtain a b where ab: "c # cs = a @ p @ b" by auto
    show "includes_str (c # cs) p"
    proof (cases a)
      case Nil
      then have "prefix p (c # cs)" using ab by (simp add: prefix_def)
      then show ?thesis by simp
    next
      case (Cons x xs)
      then have "cs = xs @ p @ b" using ab by simp
      then have "includes_str cs p" using Cons.IH by blast
      then show ?thesis by simp
    qed
  qed
qed

lemma includes_str_longer:
  assumes "includes_str s (q @ p)" shows "includes_str s p"
proof -
  from assms obtain a b where "s = a @ (q @ p) @ b" by (auto simp: includes_str_iff)
  then have "s = (a @ q) @ p @ b" by simp
  then show ?thesis unfolding includes_str_iff by blast
qed

lemma death_metal_includes_metal:
  "includes_str s ''death metal'' \<Longrightarrow> includes_str s ''metal''"
  using includes_str_longer [of s "''death ''" "''metal''"] by simp

lemma genreMap_bounds:
  "list_all (\<lambda>e. 0.2 \<le> energy (snd e) \<and> energy (snd e) \<le> 1
      \<and> 70 \<le> tempo (snd e) \<and> tempo (snd e) \<le> 180
      \<and> 0.2 \<le> danceability (snd e) \<and> danceability (snd e) \<le> 0.92
      \<and> - 18 \<le> loudness (snd e) \<and> loudness (snd e) \<le> - 3
      \<and> 0.3 \<le> valence (snd e) \<and> valence (snd e) \<le> 0.8
      \<and> 0.02 \<le> acousticness (snd e) \<and> acousticness (snd e) \<le> 0.95) genreMap"
  by (simp add: genreMap_def)

lemma pop_profile: "the (map_of genreMap ''pop'') = \<lparr> energy = 0.65, tempo = 118, danceability = 0.7, loudness = - 6, valence = 0.7, acousticness = 0.15 \<rparr>"
  by (simp add: genreMap_def)

lemma matched_noise: "matchedFeatures [''noise''] = [\<lparr> energy = 0.85, tempo = 120, danceability = 0.3, loudness = - 4, valence = 0.3, acousticness = 0.1 \<rparr>]"
  by (simp add: matchedFeatures_def genreMap_def toLowerCase_def lowerChar_def upperCaseChars_def lowerCaseChars_def)

lemma matched_xyz: "matchedFeatures [''xyz''] = []"
  by (simp add: matchedFeatures_def genreMap_def toLowerCase_def lowerChar_def upperCaseChars_def lowerCaseChars_def)



lemma foldl_addFeatures_loudness:
  "loudness (foldl addFeatures z fs) = loudness z + sum_list (map loudness fs)"
  by (induction fs arbitrary: z) (simp_all add: addFeatures_def)

lemma foldl_addFeatures_energy:
  "energy (foldl addFeatures z fs) = energy z + sum_list (map energy fs)"
  by (induction fs arbitrary: z) (simp_all add: addFeatures_def)

lemma foldl_addFeatures_tempo:
  "tempo (foldl addFeatures z fs) = tempo z + sum_list (map tempo fs)"
  by (induction fs arbitrary: z) (simp_all add: addFeatures_def)

lemma foldl_addFeatures_danceability:
  "danceability (foldl addFeatures z fs) = danceability z + sum_list (map danceability fs)"
  by (induction fs arbitrary: z) (simp_all add: addFeatures_def)

lemma foldl_addFeatures_valence:
  "valence (foldl addFeatures z fs) = valence z + sum_list (map valence fs)"
  by (induction fs arbitrary: z) (simp_all add: addFeatures_def)

lemma foldl_addFeatures_acousticness:
  "acousticness (foldl addFeatures z fs) = acousticness z + sum_list (map acousticness fs)"
  by (induction fs arbitrary: z) (simp_all add: addFeatures_def)

lemma sum_list_lower:
  fixes g :: "'a \<Rightarrow> real"
  assumes "list_all (\<lambda>x. lo \<le> g x) xs"
  shows "lo * real (length xs) \<le> sum_list (map g xs)"
  using assms by (induction xs) (auto simp: algebra_simps)

lemma sum_list_upper:
  fixes g :: "'a \<Rightarrow> real"
  assumes "list_all (\<lambda>x. g x \<le> hi) xs"
  shows "sum_list (map g xs) \<le> hi * real (length xs)"
  using assms by (induction xs) (auto simp: algebra_simps)

lemma mean_bounds:
  fixes g :: "'a \<Rightarrow> real"
  assumes "xs \<noteq> []" and "list_all (\<lambda>x. lo \<le> g x \<and> g x \<le> hi) xs"
  shows "lo \<le> sum_list (map g xs) / real (length xs) \<and> sum_list (map g xs) / real (length xs) \<le> hi"
proof -
  have pos: "0 < real (length xs)" using assms(1) by simp
  have los: "list_all (\<lambda>x. lo \<le> g x) xs" and his: "list_all (\<lambda>x. g x \<le> hi) xs"
    using assms(2) by (auto simp: list_all_iff)
  have "lo * real (length xs) \<le> sum_list (map g xs)"
    and "sum_list (map g xs) \<le> hi * real (length xs)"
    using sum_list_lower [OF los] sum_list_upper [OF his] by simp_all
  then show ?thesis using pos by (simp add: pos_le_divide_eq pos_divide_le_eq)
qed

lemma Math_round_bounds:
  assumes "real_of_int lo \<le> x" and "x \<le> real_of_int hi"
  shows "lo \<le> Math_round x \<and> Math_round x \<le> hi"
  using assms unfolding Math_round_def by (simp add: le_floor_iff floor_le_iff)



lemma genreMap_split:
  "genreMap =
     (''metal'', \<lparr> energy = 0.95, tempo = 160, danceability = 0.5, loudness = - 5, valence = 0.5, acousticness = 0.1 \<rparr>)
     # (''heavy metal'', \<lparr> energy = 0.98, tempo = 170, danceability = 0.45, loudness = - 4, valence = 0.4, acousticness = 0.05 \<rparr>)
     # (''death metal'', \<lparr> energy = 1.0, tempo = 180, danceability = 0.4, loudness = - 3, valence = 0.3, acousticness = 0.02 \<rparr>)
     # drop 3 genreMap"
  by (simp add: genreMap_def)

lemma genreMap_tail_loudness:
  "list_all (\<lambda>e. loudness (snd e) \<le> - 4) (drop 3 genreMap)"
  by (simp add: genreMap_def)

lemma list_all_map_filter:
  "list_all (\<lambda>e. Q (snd e)) xs \<Longrightarrow> list_all Q (map snd (filter P xs))"
  by (induction xs) auto

lemma matched_loudness_sum:
  "sum_list (map loudness (matchedFeatures genres)) \<le> - 4 * real (length (matchedFeatures genres))"
proof -
  define P where "P = (\<lambda>e :: string \<times> genre_profile. includes_str (toLowerCase (join '' '' genres)) (fst e))"
  define others where "others = map snd (filter P (drop 3 genreMap))"
  have m: "matchedFeatures genres = map snd (filter P genreMap)"
    by (simp add: matchedFeatures_def P_def)
  have "list_all (\<lambda>f. loudness f \<le> - 4) others"
    unfolding others_def using genreMap_tail_loudness by (rule list_all_map_filter)
  then have tail: "sum_list (map loudness others) \<le> - 4 * real (length others)"
    by (rule sum_list_upper)
  have dm: "P (''death metal'', x) \<Longrightarrow> P (''metal'', y)" for x y
    by (simp add: P_def death_metal_includes_metal)
  show ?thesis
    unfolding m
    apply (subst (1 2) genreMap_split)
    using tail dm
    apply (auto simp: others_def)
    done
qed


lemma matched_bounds:
  "list_all (\<lambda>f. 0.2 \<le> energy f \<and> energy f \<le> 1) (matchedFeatures genres)"
  "list_all (\<lambda>f. 70 \<le> tempo f \<and> tempo f \<le> 180) (matchedFeatures genres)"
  "list_all (\<lambda>f. 0.2 \<le> danceability f \<and> danceability f \<le> 0.92) (matchedFeatures genres)"
  "list_all (\<lambda>f. - 18 \<le> loudness f \<and> loudness f \<le> - 3) (matchedFeatures genres)"
  "list_all (\<lambda>f. 0.3 \<le> valence f \<and> valence f \<le> 0.8) (matchedFeatures genres)"
  "list_all (\<lambda>f. 0.02 \<le> acousticness f \<and> acousticness f \<le> 0.95) (matchedFeatures genres)"
  unfolding matchedFeatures_def Let_def
  using genreMap_bounds by (auto intro!: list_all_map_filter simp: list_all_iff)

lemma analyzeGenres_bounds:
  "0.2 \<le> energy (analyzeGenres genres) \<and> energy (analyzeGenres genres) \<le> 1
   \<and> 70 \<le> tempo (analyzeGenres genres) \<and> tempo (analyzeGenres genres) \<le> 180
   \<and> 0.2 \<le> danceability (analyzeGenres genres) \<and> danceability (analyzeGenres genres) \<le> 0.92
   \<and> - 18 \<le> loudness (analyzeGenres genres) \<and> loudness (analyzeGenres genres) \<le> - 4
   \<and> 0.3 \<le> valence (analyzeGenres genres) \<and> valence (analyzeGenres genres) \<le> 0.8
   \<and> 0.02 \<le> acousticness (analyzeGenres genres) \<and> acousticness (analyzeGenres genres) \<le> 0.95"
proof (cases "matchedFeatures genres = []")
  case True
  then show ?thesis by (simp add: analyzeGenres_def pop_profile)
next
  case False
  define ms where "ms = matchedFeatures genres"
  have ne: "ms \<noteq> []" using False by (simp add: ms_def)
  have pos: "0 < real (length ms)" using ne by simp
  note mb = matched_bounds [of genres, folded ms_def]
  have e: "0.2 \<le> sum_list (map energy ms) / real (length ms) \<and> sum_list (map energy ms) / real (length ms) \<le> 1"
    using mean_bounds [OF ne mb(1)] .
  have t: "70 \<le> sum_list (map tempo ms) / real (length ms) \<and> sum_list (map tempo ms) / real (length ms) \<le> 180"
    using mean_bounds [OF ne mb(2)] .
  have d: "0.2 \<le> sum_list (map danceability ms) / real (length ms) \<and> sum_list (map danceability ms) / real (length ms) \<le> 0.92"
    using mean_bounds [OF ne mb(3)] .
  have l: "- 18 \<le> sum_list (map loudness ms) / real (length ms) \<and> sum_list (map loudness ms) / real (length ms) \<le> - 3"
    using mean_bounds [OF ne mb(4)] .
  have l4: "sum_list (map loudness ms) / real (length ms) \<le> - 4"
    using matched_loudness_sum [of genres, folded ms_def] pos by (simp add: pos_divide_le_eq)
  have v: "0.3 \<le> sum_list (map valence ms) / real (length ms) \<and> sum_list (map valence ms) / real (length ms) \<le> 0.8"
    using mean_bounds [OF ne mb(5)] .
  have a: "0.02 \<le> sum_list (map acousticness ms) / real (length ms) \<and> sum_list (map acousticness ms) / real (length ms) \<le> 0.95"
    using mean_bounds [OF ne mb(6)] .
  have tr: "70 \<le> Math_round (sum_list (map tempo ms) / real (length ms))
            \<and> Math_round (sum_list (map tempo ms) / real (length ms)) \<le> 180"
    using Math_round_bounds [of 70 _ 180] t by simp
  have unf: "analyzeGenres genres =
     \<lparr> energy = sum_list (map energy ms) / real (length ms),
       tempo = of_int (Math_round (sum_list (map tempo ms) / real (length ms))),
       danceability = sum_list (map danceability ms) / real (length ms),
       loudness = sum_list (map loudness ms) / real (length ms),
       valence = sum_list (map valence ms) / real (length ms),
       acousticness = sum_list (map acousticness ms) / real (length ms) \<rparr>"
    using ne
    by (simp add: analyzeGenres_def Let_def ms_def [symmetric] foldl_addFeatures_loudness
        foldl_addFeatures_energy foldl_addFeatures_tempo foldl_addFeatures_danceability
        foldl_addFeatures_valence foldl_addFeatures_acousticness)
  show ?thesis
    unfolding unf using e t d l l4 v a tr by simp
qed

lemma inBounds_adjustEnergetic: "inBounds f \<Longrightarrow> inBounds (adjustEnergetic b f)"
  by (auto simp: inBounds_def adjustEnergetic_def)

lemma inBounds_adjustChill: "inBounds f \<Longrightarrow> inBounds (adjustChill b f)"
  by (auto simp: inBounds_def adjustChill_def)

lemma inBounds_adjustHappy: "inBounds f \<Longrightarrow> inBounds (adjustHappy b f)"
  by (auto simp: inBounds_def adjustHappy_def)

lemma inBounds_adjustSad: "inBounds f \<Longrightarrow> inBounds (adjustSad b f)"
  by (auto simp: inBounds_def adjustSad_def)

lemma inBounds_adjustAcoustic: "inBounds f \<Longrightarrow> inBounds (adjustAcoustic b f)"
  by (auto simp: inBounds_def adjustAcoustic_def)

lemma inBounds_adjustForTitleKeywords:
  "inBounds f \<Longrightarrow> inBounds (adjustForTitleKeywords song f)"
  by (simp add: adjustForTitleKeywords_def Let_def inBounds_adjustEnergetic inBounds_adjustChill
      inBounds_adjustHappy inBounds_adjustSad inBounds_adjustAcoustic)

lemma inBounds_inferFromNames: "inBounds (withProfile (inferFromNames artist song) c s)"
  by (simp add: inBounds_def withProfile_def inferFromNames_def Let_def)

lemma inBounds_analyzeGenres: "inBounds (withProfile (analyzeGenres genres) c s)"
  using analyzeGenres_bounds [of genres] by (simp add: inBounds_def withProfile_def)

lemma inBounds_confidence: "inBounds (f\<lparr>confidence := c\<rparr>) = inBounds f"
  by (simp add: inBounds_def)


lemma inferAudioFeatures_inBounds: "inBounds (inferAudioFeatures artist song genres)"
  by (simp add: inferAudioFeatures_def Let_def inBounds_inferFromNames inBounds_confidence
      inBounds_adjustForTitleKeywords inBounds_analyzeGenres)

lemma no_keyword_in_b:
  "adjustForTitleKeywords (Some ''b'') f = f"
  by (simp add: adjustForTitleKeywords_def falsyStr_def Let_def matchesWord_def toLowerCase_def
      lowerChar_def upperCaseChars_def lowerCaseChars_def energeticKeywords_def
      chillKeywords_def happyKeywords_def sadKeywords_def acousticKeywords_def matchesHere_def
      adjustEnergetic_def adjustChill_def adjustHappy_def adjustSad_def adjustAcoustic_def)

lemma rage_on_noise:
  "adjustForTitleKeywords (Some ''rage'') (withProfile p c s)
     = (withProfile p c s)\<lparr> energy := min 1.0 (energy p + 0.2),
                              loudness := min (- 5) (loudness p + 2) \<rparr>"
  by (simp add: adjustForTitleKeywords_def falsyStr_def Let_def matchesWord_def toLowerCase_def
      lowerChar_def upperCaseChars_def lowerCaseChars_def energeticKeywords_def
      chillKeywords_def happyKeywords_def sadKeywords_def acousticKeywords_def matchesHere_def
      wordBoundary_def firstChar_def isWordChar_def withProfile_def
      adjustEnergetic_def adjustChill_def adjustHappy_def adjustSad_def adjustAcoustic_def)

text \<open>
  What holds of the code in every dimension, for every artist, song and list of genre
  tags (the empty list included): energy, danceability, valence and acousticness stay
  in [0,1], tempo in [60,200], and loudness between -30 and -4.
\<close>

lemma inferAudioFeatures_bounds:
  "0 \<le> energy (inferAudioFeatures artist song genres)
   \<and> energy (inferAudioFeatures artist song genres) \<le> 1
   \<and> 60 \<le> tempo (inferAudioFeatures artist song genres)
   \<and> tempo (inferAudioFeatures artist song genres) \<le> 200
   \<and> 0 \<le> danceability (inferAudioFeatures artist song genres)
   \<and> danceability (inferAudioFeatures artist song genres) \<le> 1
   \<and> - 30 \<le> loudness (inferAudioFeatures artist song genres)
   \<and> loudness (inferAudioFeatures artist song genres) \<le> - 4
   \<and> 0 \<le> valence (inferAudioFeatures artist song genres)
   \<and> valence (inferAudioFeatures artist song genres) \<le> 1
   \<and> 0 \<le> acousticness (inferAudioFeatures artist song genres)
   \<and> acousticness (inferAudioFeatures artist song genres) \<le> 1"
  using inferAudioFeatures_inBounds [of artist song genres] by (simp add: inBounds_def)

text \<open>
  C1 at a concrete input: the loudness of a feature vector is bounded by -5 dB, and
  the keyword adjustment of the analyzer itself caps it there (\<open>Math.min(-5, ...)\<close>).
  The profile of the genre \<open>noise\<close> in the static table has loudness -4, so for the
  single tag \<open>noise\<close> and a title without keywords the inferred loudness is -4,
  above the bound; with the title \<open>rage\<close> the same tag gives -5.
\<close>

theorem C1_noise_loudness_above_bound:
  "loudness (inferAudioFeatures (Some ''a'') (Some ''b'') [''noise'']) = - 4
   \<and> \<not> loudness (inferAudioFeatures (Some ''a'') (Some ''b'') [''noise'']) \<le> - 5
   \<and> loudness (inferAudioFeatures (Some ''a'') (Some ''rage'') [''noise'']) = - 5"
  by (simp add: inferAudioFeatures_def analyzeGenres_def matched_noise Let_def addFeatures_def
      no_keyword_in_b rage_on_noise Math_round_def) (simp add: withProfile_def)

text \<open>
  C2 as stated fails: the confidence is computed from the number of genre tags, not
  from the number of profiles they match.  The single tag \<open>xyz\<close> matches no profile,
  for which the specification's step function gives 0.3, and the confidence is 0.6.
\<close>

theorem C2_confidence_counterexample:
  "length (matchedFeatures [''xyz'']) = 0
   \<and> confidence (inferAudioFeatures (Some ''a'') (Some ''b'') [''xyz'']) = 0.6
   \<and> confidence (inferAudioFeatures (Some ''a'') (Some ''b'') [''xyz''])
       \<noteq> specConfidenceOfMatches (length (matchedFeatures [''xyz'']))"
  by (simp add: matched_xyz inferAudioFeatures_def calculateConfidence_def
      specConfidenceOfMatches_def Let_def)

text \<open>
  C2, amended: for a non-empty list of genre tags the confidence is the step function
  of the number of tags in the list: one tag gives 0.6, two give 0.7, three or more
  give 0.8; the song title (and so every keyword adjustment) has no influence on it.
\<close>

theorem C2_confidence_by_tag_count:
  assumes "genres \<noteq> []"
  shows "confidence (inferAudioFeatures artist song genres)
           = (if length genres = 1 then 0.6 else if length genres = 2 then 0.7 else 0.8)"
proof -
  have "length genres \<noteq> 0" using assms by simp
  then have "confidence (inferAudioFeatures artist song genres) = calculateConfidence genres"
    by (simp add: inferAudioFeatures_def Let_def)
  also have "\<dots> = (if length genres = 1 then 0.6 else if length genres = 2 then 0.7 else 0.8)"
  proof (cases genres)
    case Nil
    with assms show ?thesis by simp
  next
    case (Cons g gs)
    then show ?thesis
      by (cases gs) (auto simp: calculateConfidence_def Suc_le_eq)
  qed
  finally show ?thesis .
qed

theorem C2_confidence_by_tag_count_witness:
  "[''heavy metal'', ''rock''] \<noteq> []
   \<and> confidence (inferAudioFeatures (Some ''a'') (Some ''party'') [''heavy metal'', ''rock'']) = 0.7"
  using C2_confidence_by_tag_count [of "[''heavy metal'', ''rock'']" "Some ''a''" "Some ''party''"]
  by simp



section \<open>Cleaning of titles\<close>


lemma suffixes_lowercase: "list_all (\<lambda>d. toLowerCase d = d) COMMON_SUFFIXES"
  by code_simp

lemma suffixes_distinct: "distinct COMMON_SUFFIXES"
  by (simp add: COMMON_SUFFIXES_def)

lemma suffixes_end: "list_all (\<lambda>d. d \<noteq> [] \<and> \<not> isWhiteSpace (last d)) COMMON_SUFFIXES"
  by (simp add: COMMON_SUFFIXES_def isWhiteSpace_def)

lemma suffixes_not_nested:
  "list_all (\<lambda>d. list_all (\<lambda>d'. \<not> endsWith d' d \<or> d = d') COMMON_SUFFIXES) COMMON_SUFFIXES"
  by code_simp



lemma endsWith_append_same: "endsWith (x @ d) d"
  by (simp add: endsWith_def)

lemma endsWith_table:
  assumes "d \<in> set COMMON_SUFFIXES" and "d' \<in> set COMMON_SUFFIXES"
    and "endsWith (x @ d') d"
  shows "d = d'"
proof -
  have nested: "endsWith a b \<Longrightarrow> b = a"
    if "a \<in> set COMMON_SUFFIXES" and "b \<in> set COMMON_SUFFIXES" for a b
    using suffixes_not_nested that by (auto simp: list_all_iff)
  from assms(3) have "prefix (rev d) (rev d' @ rev x)" by (simp add: endsWith_def)
  moreover have "prefix (rev d') (rev d' @ rev x)" by simp
  ultimately consider "prefix (rev d) (rev d')" | "prefix (rev d') (rev d)"
    using prefix_same_cases by blast
  then show ?thesis
  proof cases
    case 1
    then have "endsWith d' d" by (simp add: endsWith_def)
    then show ?thesis using nested [OF assms(2) assms(1)] by simp
  next
    case 2
    then have "endsWith d d'" by (simp add: endsWith_def)
    then show ?thesis using nested [OF assms(1) assms(2)] by simp
  qed
qed

lemma trimEnd_decorated:
  assumes "d \<noteq> []" and "\<not> isWhiteSpace (last d)" and "list_all isWhiteSpace w"
  shows "trimEnd (x @ d @ w) = x @ d"
proof -
  have "dropWhile isWhiteSpace (rev w @ rev d @ rev x) = dropWhile isWhiteSpace (rev d @ rev x)"
    using assms(3) by (intro dropWhile_append2) (auto simp: list_all_iff)
  also have "\<dots> = rev d @ rev x"
    using assms(1,2) by (cases "rev d") (auto simp: last_rev [symmetric] hd_rev)
  finally show ?thesis by (simp add: trimEnd_def)
qed

lemma stripSuffix_hit:
  assumes "d \<in> set COMMON_SUFFIXES" and "list_all isWhiteSpace w"
  shows "stripSuffix (x @ d @ w) d = x"
proof -
  have "d \<noteq> [] \<and> \<not> isWhiteSpace (last d)"
    using suffixes_end assms(1) by (auto simp: list_all_iff)
  then have "trimEnd (x @ d @ w) = x @ d" using assms(2) by (simp add: trimEnd_decorated)
  then show ?thesis by (simp add: stripSuffix_def endsWith_append_same)
qed

lemma stripSuffix_miss:
  assumes "d \<in> set COMMON_SUFFIXES" and "d' \<in> set COMMON_SUFFIXES" and "d \<noteq> d'"
    and "list_all isWhiteSpace w"
  shows "stripSuffix (x @ d' @ w) d = x @ d' @ w"
proof -
  have "d' \<noteq> [] \<and> \<not> isWhiteSpace (last d')"
    using suffixes_end assms(2) by (auto simp: list_all_iff)
  then have "trimEnd (x @ d' @ w) = x @ d'" using assms(4) by (simp add: trimEnd_decorated)
  moreover have "\<not> endsWith (x @ d') d"
    using endsWith_table [OF assms(1) assms(2)] assms(3) by blast
  ultimately show ?thesis by (simp add: stripSuffix_def)
qed

lemma foldl_stripSuffix_miss:
  assumes "set ds \<subseteq> set COMMON_SUFFIXES" and "d' \<in> set COMMON_SUFFIXES" and "d' \<notin> set ds"
    and "list_all isWhiteSpace w"
  shows "foldl stripSuffix (x @ d' @ w) ds = x @ d' @ w"
  using assms(1,3)
proof (induction ds)
  case Nil
  then show ?case by simp
next
  case (Cons d ds)
  then have "stripSuffix (x @ d' @ w) d = x @ d' @ w"
    using stripSuffix_miss [of d d' w x] assms(2,4) by auto
  then show ?case using Cons by simp
qed

lemma table_split:
  assumes "k < length COMMON_SUFFIXES"
  shows "COMMON_SUFFIXES = take k COMMON_SUFFIXES @ (COMMON_SUFFIXES ! k) # drop (Suc k) COMMON_SUFFIXES"
  using assms by (simp add: id_take_nth_drop)

lemma not_in_take:
  assumes "k < length COMMON_SUFFIXES"
  shows "COMMON_SUFFIXES ! k \<notin> set (take k COMMON_SUFFIXES)"
proof
  assume "COMMON_SUFFIXES ! k \<in> set (take k COMMON_SUFFIXES)"
  then obtain m where "m < k" and "COMMON_SUFFIXES ! m = COMMON_SUFFIXES ! k"
    using assms by (auto simp: in_set_conv_nth)
  then show False
    using suffixes_distinct assms by (simp add: nth_eq_iff_index_eq)
qed

lemma not_in_drop:
  assumes "k < length COMMON_SUFFIXES" and "j \<le> k"
  shows "COMMON_SUFFIXES ! j \<notin> set (drop (Suc k) COMMON_SUFFIXES)"
proof
  assume "COMMON_SUFFIXES ! j \<in> set (drop (Suc k) COMMON_SUFFIXES)"
  then obtain m where m: "m < length (drop (Suc k) COMMON_SUFFIXES)"
    and eq: "drop (Suc k) COMMON_SUFFIXES ! m = COMMON_SUFFIXES ! j"
    by (auto simp: in_set_conv_nth)
  from m have inside: "Suc k + m < length COMMON_SUFFIXES" by simp
  from eq assms(1) have "COMMON_SUFFIXES ! (Suc k + m) = COMMON_SUFFIXES ! j" by simp
  moreover have "j < length COMMON_SUFFIXES" using assms by simp
  ultimately have "Suc k + m = j"
    using suffixes_distinct inside by (simp add: nth_eq_iff_index_eq)
  then show False using assms(2) by simp
qed

lemma one_pass_outer_only:
  assumes "k < length COMMON_SUFFIXES" and "j \<le> k"
  shows "foldl stripSuffix (x @ COMMON_SUFFIXES ! j @ '' '' @ COMMON_SUFFIXES ! k) COMMON_SUFFIXES
           = x @ COMMON_SUFFIXES ! j @ '' ''"
proof -
  let ?D = COMMON_SUFFIXES
  have kin: "?D ! k \<in> set ?D" and jin: "?D ! j \<in> set ?D" using assms by simp_all
  have before: "foldl stripSuffix ((x @ ?D ! j @ '' '') @ ?D ! k @ []) (take k ?D)
                  = (x @ ?D ! j @ '' '') @ ?D ! k @ []"
    using kin not_in_take [OF assms(1)]
    by (intro foldl_stripSuffix_miss) (auto dest: in_set_takeD)
  have hit: "stripSuffix ((x @ ?D ! j @ '' '') @ ?D ! k @ []) (?D ! k) = x @ ?D ! j @ '' ''"
    using kin by (intro stripSuffix_hit) simp_all
  have after: "foldl stripSuffix (x @ ?D ! j @ '' '') (drop (Suc k) ?D) = x @ ?D ! j @ '' ''"
    using jin not_in_drop [OF assms]
    by (intro foldl_stripSuffix_miss) (auto dest: in_set_dropD simp: isWhiteSpace_def)
  have "foldl stripSuffix (x @ ?D ! j @ '' '' @ ?D ! k) ?D
          = foldl stripSuffix (foldl stripSuffix (foldl stripSuffix (x @ ?D ! j @ '' '' @ ?D ! k) (take k ?D)) [?D ! k]) (drop (Suc k) ?D)"
    by (subst (3) table_split [OF assms(1)]) (simp only: foldl_append foldl_Cons foldl_Nil append_Cons append_Nil)
  then show ?thesis using before hit after by simp
qed



lemma trim_append_space: "trim (y @ '' '') = trim y"
proof (cases "\<forall>c\<in>set y. isWhiteSpace c")
  case True
  then have a: "dropWhile isWhiteSpace y = []" by simp
  have b: "dropWhile isWhiteSpace (y @ '' '') = []"
    using True by (simp add: dropWhile_append isWhiteSpace_space)
  show ?thesis by (simp only: trim_def a b)
next
  case False
  then have "dropWhile isWhiteSpace (y @ '' '') = dropWhile isWhiteSpace y @ '' ''"
    by (auto simp: dropWhile_append)
  then show ?thesis by (simp add: trim_def trimEnd_def isWhiteSpace_space)
qed

lemma toLowerCase_append: "toLowerCase (a @ b) = toLowerCase a @ toLowerCase b"
  by (simp add: toLowerCase_def)

lemma toLowerCase_suffix:
  "i < length COMMON_SUFFIXES \<Longrightarrow> toLowerCase (COMMON_SUFFIXES ! i) = COMMON_SUFFIXES ! i"
  using suffixes_lowercase by (simp add: list_all_length)

lemma toLowerCase_space: "toLowerCase '' '' = '' ''"
  by code_simp


text \<open>
  A title made of a text \<open>s\<close> and three stacked decorations of the table loses the
  outermost one and keeps the inner two whenever the middle one does not come later
  in the table than the outermost one.
\<close>

lemma one_pass_keeps_inner_two:
  assumes "i < length COMMON_SUFFIXES" and "k < length COMMON_SUFFIXES" and "j \<le> k"
  shows "cleanTitle (s @ '' '' @ COMMON_SUFFIXES ! i @ '' '' @ COMMON_SUFFIXES ! j @ '' ''
                       @ COMMON_SUFFIXES ! k)
           = collapseSpaces (trim (toLowerCase s @ '' '' @ COMMON_SUFFIXES ! i @ '' ''
                                     @ COMMON_SUFFIXES ! j))"
proof -
  let ?D = COMMON_SUFFIXES
  have j: "j < length ?D" using assms by simp
  have low: "toLowerCase (s @ '' '' @ ?D ! i @ '' '' @ ?D ! j @ '' '' @ ?D ! k)
               = (toLowerCase s @ '' '' @ ?D ! i @ '' '') @ ?D ! j @ '' '' @ ?D ! k"
    using assms(1,2) j
    by (simp only: toLowerCase_append toLowerCase_suffix toLowerCase_space append_assoc)
  have pass: "foldl stripSuffix ((toLowerCase s @ '' '' @ ?D ! i @ '' '') @ ?D ! j @ '' '' @ ?D ! k) ?D
                = (toLowerCase s @ '' '' @ ?D ! i @ '' '') @ ?D ! j @ '' ''"
    using assms(2,3) by (rule one_pass_outer_only)
  have "cleanTitle (s @ '' '' @ ?D ! i @ '' '' @ ?D ! j @ '' '' @ ?D ! k)
          = collapseSpaces (trim ((toLowerCase s @ '' '' @ ?D ! i @ '' '' @ ?D ! j) @ '' ''))"
    unfolding cleanTitle_def Let_def low pass by (simp only: append_assoc)
  then show ?thesis by (simp only: trim_append_space)
qed

text \<open>
  C4 at a concrete input.  For the title of the parser's own test, whose decorations
  are stacked in the order of the table (entries 0, 10 and 11), only the outermost
  one is removed and the inner two stay in the song, as the claim says.  For a title
  whose decorations are stacked in the reverse order of the table (entry 16 innermost,
  then 10, then 0 outermost) the loop of \<open>cleanTitle\<close> removes all three in one
  call, so the song keeps none of the inner two.
\<close>

theorem C4_reverse_stack_loses_all_three:
  "COMMON_SUFFIXES ! 0 = ''(official video)'' \<and> COMMON_SUFFIXES ! 10 = ''(hd)''
   \<and> COMMON_SUFFIXES ! 11 = ''(4k)'' \<and> COMMON_SUFFIXES ! 16 = ''(remix)''
   \<and> song_of (parseVideoTitle (Some ''Artist - Song (Official Video) (HD) (4K)'') None)
       = Some ''song (official video) (hd)''
   \<and> cleanTitle ''Artist - Song (Remix) (HD) (Official Video)'' = ''artist - song''
   \<and> song_of (parseVideoTitle (Some ''Artist - Song (Remix) (HD) (Official Video)'') None)
       = Some ''song''
   \<and> song_of (parseVideoTitle (Some ''Artist - Song (Remix) (HD) (Official Video)'') None)
       \<noteq> Some ''song (remix) (hd)''"
  by code_simp

end
